theory Spec2Isabelle
  imports Complex_Main "HOL-Library.Sublist"
begin

section \<open>Numbers\<close>

text \<open>
  The PM2.5 concentrations of \<^verbatim>\<open>app.py\<close> are Python numbers. They are read here as
  the real numbers they denote: comparison and \<^verbatim>\<open>max\<close> are exact on them, and
  \<^verbatim>\<open>round(x, 2)\<close> is rounding to the nearest multiple of one hundredth, a tie going
  to the even neighbour (Python's rule).
\<close>

definition round2 :: "real \<Rightarrow> real" where
  "round2 x =
     (let y = x * 100; f = \<lfloor>y\<rfloor>; d = y - of_int f
      in if d < 1 / 2 then of_int f / 100
         else if 1 / 2 < d then of_int (f + 1) / 100
         else if even f then of_int f / 100 else of_int (f + 1) / 100)"

section \<open>The AQI classifier (\<^verbatim>\<open>get_aqi_level\<close>)\<close>

text \<open>
  \<^verbatim>\<open>get_aqi_level\<close> returns a dictionary with the two keys \<^verbatim>\<open>level\<close> and
  \<^verbatim>\<open>color\<close>; its argument may be \<^verbatim>\<open>None\<close>.
\<close>

record aqi_level =
  level :: string
  color :: string

definition get_aqi_level :: "real option \<Rightarrow> aqi_level" where
  "get_aqi_level pm25 =
     (case pm25 of
        None \<Rightarrow> \<lparr>level = ''Unknown'', color = ''#aaaaaa''\<rparr>
      | Some v \<Rightarrow>
          if v < 0 then \<lparr>level = ''Unknown'', color = ''#aaaaaa''\<rparr>
          else if v \<le> 12.0 then \<lparr>level = ''Good'', color = ''#00e400''\<rparr>
          else if v \<le> 35.4 then \<lparr>level = ''Moderate'', color = ''#ffff00''\<rparr>
          else if v \<le> 55.4 then
            \<lparr>level = ''Unhealthy for Sensitive Groups'', color = ''#ff7e00''\<rparr>
          else if v \<le> 150.4 then \<lparr>level = ''Unhealthy'', color = ''#ff0000''\<rparr>
          else if v \<le> 250.4 then \<lparr>level = ''Very Unhealthy'', color = ''#8f3f97''\<rparr>
          else \<lparr>level = ''Hazardous'', color = ''#7e0023''\<rparr>)"

section \<open>Wall-clock time\<close>

text \<open>
  A naive \<^verbatim>\<open>datetime\<close>: the day as its proleptic Gregorian ordinal (what
  \<^verbatim>\<open>toordinal()\<close> returns, day 1 being Monday 0001-01-01) and the time of day.
  Adding \<^verbatim>\<open>timedelta(hours=k)\<close> works on the count of seconds, as the library does;
  the microseconds are untouched. A reading of the wall clock lies far below the
  library's last day (year 9999), so the overflow of the addition is not modelled.
\<close>

record datetime =
  dt_ordinal :: nat
  dt_hour :: nat
  dt_minute :: nat
  dt_second :: nat
  dt_microsecond :: nat

definition plus_hours :: "datetime \<Rightarrow> nat \<Rightarrow> datetime" where
  "plus_hours dt k =
     (let total = dt_hour dt * 3600 + dt_minute dt * 60 + dt_second dt + k * 3600;
          secs = total mod 86400;
          rem = secs mod 3600
      in \<lparr>dt_ordinal = dt_ordinal dt + total div 86400,
          dt_hour = secs div 3600,
          dt_minute = rem div 60,
          dt_second = rem mod 60,
          dt_microsecond = dt_microsecond dt\<rparr>)"

definition weekday :: "datetime \<Rightarrow> nat" where
  "weekday dt = (dt_ordinal dt + 6) mod 7"

text \<open>The seconds elapsed since midnight of day 0: the instant a datetime denotes.\<close>

definition instant :: "datetime \<Rightarrow> nat" where
  "instant dt = dt_ordinal dt * 86400 + dt_hour dt * 3600 + dt_minute dt * 60 + dt_second dt"

text \<open>A number below 100 in two decimal digits, as \<^verbatim>\<open>%H\<close> and \<^verbatim>\<open>%M\<close> print it.\<close>

definition digit :: "nat \<Rightarrow> char" where
  "digit d = ''0123456789'' ! (d mod 10)"

definition two_digits :: "nat \<Rightarrow> string" where
  "two_digits n = [digit (n div 10), digit n]"

text \<open>\<^verbatim>\<open>strftime("%H:%M")\<close>.\<close>

definition strftime_HM :: "datetime \<Rightarrow> string" where
  "strftime_HM dt = two_digits (dt_hour dt) @ '':'' @ two_digits (dt_minute dt)"

section \<open>The forecast (\<^verbatim>\<open>get_sensor_data\<close>, step 4)\<close>

text \<open>
  The one-row data frame \<^verbatim>\<open>current_features\<close>, its columns in \<^verbatim>\<open>feature_order\<close>.
\<close>

record features =
  pm25 :: real
  temperature_2m :: real
  relative_humidity_2m :: real
  wind_speed_10m :: real
  wind_direction_10m :: real
  hour :: nat
  day_of_week :: nat

text \<open>
  An entry of \<^verbatim>\<open>forecast_results\<close>: the dictionary with the keys \<^verbatim>\<open>hour\<close>
  (here \<open>step_hour\<close>, the formatted time) and \<^verbatim>\<open>aqi\<close>.
\<close>

record forecast_entry =
  step_hour :: string
  aqi :: real

text \<open>
  What a guarded call gives: the exception is caught by the enclosing
  \<^verbatim>\<open>except Exception\<close>, or the call returns.
\<close>

datatype 'a attempt = Raised | Returned 'a

text \<open>
  The loaded model is used through \<^verbatim>\<open>model.predict(current_features)[0]\<close> only: a
  function of the feature row that returns a number or raises.
\<close>

type_synonym predictor = "features \<Rightarrow> real attempt"

text \<open>\<^verbatim>\<open>weather_data.get(key, default)\<close> on the dictionary of current weather.\<close>

definition get_or :: "(string \<rightharpoonup> real) \<Rightarrow> string \<Rightarrow> real \<Rightarrow> real" where
  "get_or d k dflt = (case d k of None \<Rightarrow> dflt | Some v \<Rightarrow> v)"

definition feature_data :: "datetime \<Rightarrow> (string \<rightharpoonup> real) \<Rightarrow> real \<Rightarrow> features" where
  "feature_data now weather_data pm25_value =
     \<lparr>pm25 = pm25_value,
      temperature_2m = get_or weather_data ''temperature_2m'' 18,
      relative_humidity_2m = get_or weather_data ''relative_humidity_2m'' 60,
      wind_speed_10m = get_or weather_data ''wind_speed_10m'' 5,
      wind_direction_10m = get_or weather_data ''wind_direction_10m'' 180,
      hour = dt_hour now,
      day_of_week = weekday now\<rparr>"

text \<open>
  The loop \<^verbatim>\<open>for i in range(6)\<close> inside the \<^verbatim>\<open>try\<close>, over the list of its
  indices. The state is the feature row and the list \<^verbatim>\<open>forecast_results\<close>, which
  lives outside the \<^verbatim>\<open>try\<close>: when \<^verbatim>\<open>predict\<close> raises, the loop is left and the
  entries appended so far stay in the list.
\<close>

fun rollout_loop ::
  "predictor \<Rightarrow> datetime \<Rightarrow> nat list \<Rightarrow> features \<times> forecast_entry list
     \<Rightarrow> features \<times> forecast_entry list" where
  "rollout_loop predict now [] (current_features, forecast_results) =
     (current_features, forecast_results)"
| "rollout_loop predict now (i # is) (current_features, forecast_results) =
     (case predict current_features of
        Raised \<Rightarrow> (current_features, forecast_results)
      | Returned p \<Rightarrow>
          (let next_hour_prediction = max 0 p;
               forecast_time = plus_hours now (i + 1)
           in rollout_loop predict now is
                (current_features
                   \<lparr>pm25 := next_hour_prediction,
                    hour := dt_hour forecast_time,
                    day_of_week := weekday forecast_time\<rparr>,
                 forecast_results @
                   [\<lparr>step_hour = strftime_HM forecast_time,
                     aqi = round2 next_hour_prediction\<rparr>])))"

text \<open>
  The fallback loop. It calls \<^verbatim>\<open>datetime.now()\<close> in every iteration: \<open>clock n\<close> is
  what the \<open>n\<close>-th call of the request returns, and \<open>t\<close> counts the calls made so far.
\<close>

fun fallback_loop ::
  "(nat \<Rightarrow> datetime) \<Rightarrow> nat \<Rightarrow> real \<Rightarrow> nat list \<Rightarrow> forecast_entry list
     \<Rightarrow> forecast_entry list" where
  "fallback_loop clock t pm25_value [] forecast_results = forecast_results"
| "fallback_loop clock t pm25_value (i # is) forecast_results =
     (let forecast_time = plus_hours (clock t) (i + 1)
      in fallback_loop clock (Suc t) pm25_value is
           (forecast_results @
              [\<lparr>step_hour = strftime_HM forecast_time, aqi = round2 pm25_value\<rparr>]))"

text \<open>
  Step 4 as a whole: \<^verbatim>\<open>model\<close> is \<^verbatim>\<open>None\<close> or the loaded model (which counts as
  true in \<^verbatim>\<open>if model\<close>). With a model the clock is read once, before the loop; the
  fallback runs when \<^verbatim>\<open>forecast_results\<close> is still empty, after that one reading or
  after none.
\<close>

definition generate_forecast ::
  "predictor option \<Rightarrow> (nat \<Rightarrow> datetime) \<Rightarrow> (string \<rightharpoonup> real) \<Rightarrow> real
     \<Rightarrow> forecast_entry list" where
  "generate_forecast model clock weather_data pm25_value =
     (let (t, forecast_results) =
            (case model of
               None \<Rightarrow> (0, [])
             | Some predict \<Rightarrow>
                 (1, snd (rollout_loop predict (clock 0) [0..<6]
                            (feature_data (clock 0) weather_data pm25_value, []))))
      in if forecast_results = [] then fallback_loop clock t pm25_value [0..<6] []
         else forecast_results)"

section \<open>The ground reading (\<^verbatim>\<open>get_sensor_data\<close>, step 2)\<close>

text \<open>A parsed JSON document, an object as the list of its members.\<close>

datatype json =
  JNull
| JBool bool
| JNum real
| JStr string
| JArr "json list"
| JObj "(string \<times> json) list"

text \<open>
  Python's \<^verbatim>\<open>x.get(k, d)\<close>, \<^verbatim>\<open>k in x\<close> and \<^verbatim>\<open>x[k]\<close> for a string \<open>k\<close>:
  \<^verbatim>\<open>get\<close> exists on a dictionary only; \<^verbatim>\<open>in\<close> is key membership on a dictionary,
  element membership on a list, substring search on a string, and a TypeError on the
  rest; indexing with a string raises on everything but a dictionary that has the key.
\<close>

fun dict_get :: "json \<Rightarrow> string \<Rightarrow> json \<Rightarrow> json attempt" where
  "dict_get (JObj kvs) k d = Returned (case map_of kvs k of None \<Rightarrow> d | Some v \<Rightarrow> v)"
| "dict_get _ k d = Raised"

fun contains :: "string \<Rightarrow> json \<Rightarrow> bool attempt" where
  "contains k (JObj kvs) = Returned (k \<in> set (map fst kvs))"
| "contains k (JArr xs) = Returned (JStr k \<in> set xs)"
| "contains k (JStr s) = Returned (sublist k s)"
| "contains k _ = Raised"

fun item :: "json \<Rightarrow> string \<Rightarrow> json attempt" where
  "item (JObj kvs) k = (case map_of kvs k of None \<Rightarrow> Raised | Some v \<Rightarrow> Returned v)"
| "item _ k = Raised"

definition and_then :: "'a attempt \<Rightarrow> ('a \<Rightarrow> 'b attempt) \<Rightarrow> 'b attempt" where
  "and_then a f = (case a of Raised \<Rightarrow> Raised | Returned x \<Rightarrow> f x)"

text \<open>
  The statements after \<^verbatim>\<open>waqi_json = waqi_response.json()\<close>, on the two variables
  \<^verbatim>\<open>pm25_value\<close> and \<^verbatim>\<open>location_name\<close>. An exception leaves the \<^verbatim>\<open>try\<close> with the
  assignments made so far: \<^verbatim>\<open>pm25_value\<close> is assigned before \<^verbatim>\<open>location_name\<close>.
\<close>

definition read_waqi :: "json \<Rightarrow> json \<times> json \<Rightarrow> json \<times> json" where
  "read_waqi waqi_json vars =
     (case vars of (pm25_value, location_name) \<Rightarrow>
        (case dict_get waqi_json ''status'' JNull of
           Raised \<Rightarrow> vars
         | Returned st \<Rightarrow>
             if st = JStr ''ok'' \<and> contains ''data'' waqi_json = Returned True then
               (case item waqi_json ''data'' of
                  Raised \<Rightarrow> vars
                | Returned waqi_data \<Rightarrow>
                    (case and_then (dict_get waqi_data ''iaqi'' (JObj [])) (contains ''pm25'') of
                       Returned True \<Rightarrow>
                         (case and_then (and_then (item waqi_data ''iaqi'') (\<lambda>q. item q ''pm25''))
                                 (\<lambda>e. item e ''v'') of
                            Raised \<Rightarrow> vars
                          | Returned v \<Rightarrow>
                              (case and_then (dict_get waqi_data ''city'' (JObj []))
                                      (\<lambda>c. dict_get c ''name'' (JStr ''Unknown Station'')) of
                                 Raised \<Rightarrow> (v, location_name)
                               | Returned n \<Rightarrow> (v, n)))
                     | _ \<Rightarrow> vars))
             else vars))"

text \<open>
  Step 2: the defaults, then the \<^verbatim>\<open>try\<close>. \<open>waqi_exchange\<close> is what the requests up to
  \<^verbatim>\<open>waqi_response.json()\<close> give, with the address the reverse geocoding chose: the
  parsed document, or an exception (no connection, a timeout, an HTTP error status, a
  body that is not JSON).
\<close>

definition ground_reading :: "json attempt \<Rightarrow> json \<times> json" where
  "ground_reading waqi_exchange =
     (let vars = (JNum 25.0, JStr ''Regional Estimate'')
      in case waqi_exchange of
           Raised \<Rightarrow> vars
         | Returned waqi_json \<Rightarrow> read_waqi waqi_json vars)"

text \<open>
  The value a WAQI exchange offers as its reading, in the words of the feed's format
  rather than of the code: the member \<open>v\<close> of \<open>data.iaqi.pm25\<close> in a document whose
  \<open>status\<close> is \<open>ok\<close>, whatever that value is (a number, or \<open>null\<close>, a string or
  another value that is no number). There is none when the request failed, when the
  status is another one, or when a part of that path is missing. The properties below
  compare the code with it.
\<close>

fun json_member :: "json \<Rightarrow> string \<Rightarrow> json option" where
  "json_member (JObj kvs) k = map_of kvs k"
| "json_member _ k = None"

definition waqi_reading :: "json attempt \<Rightarrow> json option" where
  "waqi_reading ex =
     (case ex of
        Raised \<Rightarrow> None
      | Returned doc \<Rightarrow>
          if json_member doc ''status'' = Some (JStr ''ok'') then
            Option.bind
              (Option.bind
                 (Option.bind (json_member doc ''data'') (\<lambda>d. json_member d ''iaqi''))
                 (\<lambda>q. json_member q ''pm25''))
              (\<lambda>e. json_member e ''v'')
          else None)"

section \<open>The request handler (\<^verbatim>\<open>get_sensor_data\<close>)\<close>

text \<open>
  A number of the feed as the arithmetic of steps 4 and 5 reads it. \<^verbatim>\<open>round\<close> raises
  a TypeError on a string, a list, a dictionary and \<^verbatim>\<open>None\<close>; a Boolean is the
  integer 1 or 0.
\<close>

fun as_number :: "json \<Rightarrow> real option" where
  "as_number (JNum r) = Some r"
| "as_number (JBool b) = Some (if b then 1 else 0)"
| "as_number _ = None"

text \<open>
  What one request meets: the parsed query parameters (\<open>None\<close> when \<^verbatim>\<open>float\<close> raised),
  the current weather (its numeric entries) or the failure of its request, the WAQI
  exchange, the dictionary \<^verbatim>\<open>get_tempo_data\<close> returns, and the readings of the clock.
\<close>

record request =
  coordinates :: "(real \<times> real) option"
  weather :: "(string \<rightharpoonup> real) attempt"
  waqi_exchange :: "json attempt"
  tempo_data :: json
  clock :: "nat \<Rightarrow> datetime"

record ground =
  location :: json
  ground_value :: real
  unit :: string
  level_info :: aqi_level

record response =
  ground_data :: ground
  weather_data :: "string \<rightharpoonup> real"
  satellite_data :: json
  forecast_data :: "forecast_entry list"

datatype failure =
  Bad_Request string
| Server_Error string
| Uncaught_TypeError

text \<open>
  The handler. A reading that is not a number ends the request in an uncaught TypeError
  (the \<^verbatim>\<open>round\<close> of step 5 at the latest), whatever step 4 did before. The unit
  string of the source is not ASCII and is spelled \<open>ug/m3\<close> here.
\<close>

definition get_sensor_data :: "predictor option \<Rightarrow> request \<Rightarrow> failure + response" where
  "get_sensor_data model rq =
     (case coordinates rq of
        None \<Rightarrow> Inl (Bad_Request ''Invalid or missing lat/lon parameters'')
      | Some (lat, lon) \<Rightarrow>
          (case weather rq of
             Raised \<Rightarrow> Inl (Server_Error ''Failed to fetch weather data'')
           | Returned current_weather \<Rightarrow>
               (case ground_reading (waqi_exchange rq) of
                  (pm25_json, location_name) \<Rightarrow>
                    (case as_number pm25_json of
                       None \<Rightarrow> Inl Uncaught_TypeError
                     | Some pm25_value \<Rightarrow>
                         Inr \<lparr>ground_data =
                                \<lparr>location = location_name,
                                 ground_value = round2 pm25_value,
                                 unit = ''ug/m3'',
                                 level_info = get_aqi_level (Some pm25_value)\<rparr>,
                              weather_data = current_weather,
                              satellite_data = tempo_data rq,
                              forecast_data =
                                generate_forecast model (clock rq) current_weather pm25_value\<rparr>))))"

section \<open>Preparing the training data (\<^verbatim>\<open>train_model.py\<close>, steps 2 and 3)\<close>

text \<open>
  A row of the merged frame \<^verbatim>\<open>df\<close>; a missing value (NaN) is \<open>None\<close>. The date is never
  missing: the frames are merged on it.
\<close>

record sample =
  s_date :: datetime
  s_pm25 :: "real option"
  s_temperature_2m :: "real option"
  s_relative_humidity_2m :: "real option"
  s_wind_speed_10m :: "real option"
  s_wind_direction_10m :: "real option"

text \<open>A row with the three columns the script adds.\<close>

record row =
  base :: sample
  s_hour :: nat
  s_day_of_week :: nat
  pm25_next_hour :: "real option"

text \<open>\<^verbatim>\<open>df.dropna(subset=['pm25'])\<close>.\<close>

definition dropna_pm25 :: "sample list \<Rightarrow> sample list" where
  "dropna_pm25 df = filter (\<lambda>r. s_pm25 r \<noteq> None) df"

text \<open>\<^verbatim>\<open>Series.shift(-1)\<close>: every value moves one row up, the last row gets NaN.\<close>

definition shift_up :: "'a option list \<Rightarrow> 'a option list" where
  "shift_up xs = (case xs of [] \<Rightarrow> [] | _ # rest \<Rightarrow> rest @ [None])"

definition add_columns :: "sample list \<Rightarrow> row list" where
  "add_columns df =
     map (\<lambda>(r, nxt).
            \<lparr>base = r, s_hour = dt_hour (s_date r), s_day_of_week = weekday (s_date r),
             pm25_next_hour = nxt\<rparr>)
       (zip df (shift_up (map s_pm25 df)))"

text \<open>\<^verbatim>\<open>df.dropna()\<close>: a row stays when no column of it is missing.\<close>

definition complete :: "row \<Rightarrow> bool" where
  "complete r \<longleftrightarrow>
     s_pm25 (base r) \<noteq> None \<and> s_temperature_2m (base r) \<noteq> None \<and>
     s_relative_humidity_2m (base r) \<noteq> None \<and> s_wind_speed_10m (base r) \<noteq> None \<and>
     s_wind_direction_10m (base r) \<noteq> None \<and> pm25_next_hour r \<noteq> None"

definition dropna :: "row list \<Rightarrow> row list" where
  "dropna df = filter complete df"

text \<open>The columns \<^verbatim>\<open>features\<close> of a complete row, and its target.\<close>

definition features_of :: "row \<Rightarrow> features" where
  "features_of r =
     \<lparr>pm25 = the (s_pm25 (base r)),
      temperature_2m = the (s_temperature_2m (base r)),
      relative_humidity_2m = the (s_relative_humidity_2m (base r)),
      wind_speed_10m = the (s_wind_speed_10m (base r)),
      wind_direction_10m = the (s_wind_direction_10m (base r)),
      hour = s_hour r,
      day_of_week = s_day_of_week r\<rparr>"

datatype exit = Exit nat

text \<open>
  Steps 2 and 3 up to the size check: \<^verbatim>\<open>sys.exit(1)\<close>, or the pair \<^verbatim>\<open>(X, y)\<close> that
  goes on to be split, fitted and saved as the model file.
\<close>

definition prepare_training :: "sample list \<Rightarrow> exit + features list \<times> real list" where
  "prepare_training merged =
     (let df = dropna_pm25 merged
      in if df = [] then Inl (Exit 1)
         else let final_df = dropna (add_columns df);
                  X = map features_of final_df;
                  y = map (\<lambda>r. the (pm25_next_hour r)) final_df
              in if length X < 100 then Inl (Exit 1) else Inr (X, y))"

text \<open>
  The cleaning step in the words of the specification, to compare \<open>dropna\<close> with:
  only the rows whose target is missing are dropped.
\<close>

definition drop_missing_target :: "row list \<Rightarrow> row list" where
  "drop_missing_target df = filter (\<lambda>r. pm25_next_hour r \<noteq> None) df"

section \<open>Example inputs\<close>

text \<open>
  Monday 2026-11-02, 00:30:15; the feature row the handler builds then from an empty
  weather dictionary and a reading of 10; the stub model of the specification's
  testable property 4; a model whose output is always negative.
\<close>

definition example_now :: datetime where
  "example_now =
     \<lparr>dt_ordinal = 739922, dt_hour = 0, dt_minute = 30, dt_second = 15, dt_microsecond = 0\<rparr>"

definition example_features :: features where
  "example_features = feature_data example_now Map.empty 10"

definition stub_model :: predictor where
  "stub_model f = Returned (pm25 f + 1)"

definition negative_model :: predictor where
  "negative_model f = Returned (- 5)"

text \<open>
  A model that returns 1.234 whatever the row; a model that returns 7 on a row with
  \<open>pm25 = 25\<close> and raises on every other row; a clock that reads 10:59:59 at the first
  call and 11:00:00 from the second call on.
\<close>

definition fractional_model :: predictor where
  "fractional_model f = Returned 1.234"

definition failing_model :: predictor where
  "failing_model f = (if pm25 f = 25 then Returned 7 else Raised)"

definition minute_turn_clock :: "nat \<Rightarrow> datetime" where
  "minute_turn_clock n =
     (if n = 0 then
        \<lparr>dt_ordinal = 739922, dt_hour = 10, dt_minute = 59, dt_second = 59,
         dt_microsecond = 999990\<rparr>
      else
        \<lparr>dt_ordinal = 739922, dt_hour = 11, dt_minute = 0, dt_second = 0,
         dt_microsecond = 12\<rparr>)"


definition answered_request :: request where
  "answered_request =
     \<lparr>coordinates = Some (28.65, 77.23),
      weather = Returned [''temperature_2m'' \<mapsto> 21],
      waqi_exchange =
        Returned
          (JObj [(''status'', JStr ''ok''),
                 (''data'',
                  JObj [(''iaqi'', JObj [(''pm25'', JObj [(''v'', JNum 152)])]),
                        (''city'', JObj [(''name'', JStr ''Delhi'')])])]),
      tempo_data = JObj [(''status'', JStr ''No Data Available''), (''value'', JNull)],
      clock = (\<lambda>n. example_now)\<rparr>"


definition gappy_frame :: "sample list" where
  "gappy_frame =
     [\<lparr>s_date = example_now, s_pm25 = Some 5, s_temperature_2m = None,
       s_relative_humidity_2m = Some 60, s_wind_speed_10m = Some 5,
       s_wind_direction_10m = Some 180\<rparr>,
      \<lparr>s_date = plus_hours example_now 1, s_pm25 = Some 8, s_temperature_2m = Some 20,
       s_relative_humidity_2m = Some 61, s_wind_speed_10m = Some 4,
       s_wind_direction_10m = Some 170\<rparr>,
      \<lparr>s_date = plus_hours example_now 2, s_pm25 = Some 9, s_temperature_2m = Some 19,
       s_relative_humidity_2m = Some 62, s_wind_speed_10m = Some 3,
       s_wind_direction_10m = Some 160\<rparr>]"

section \<open>Properties of the classifier\<close>

text \<open>
  C6. \<^verbatim>\<open>get_aqi_level\<close> is a function of an optional PM2.5 value (total, as every
  function of the logic): \<open>None\<close> and a negative value give Unknown, a value up to
  12.0 gives Good, up to 35.4 Moderate, up to 55.4 Unhealthy for Sensitive Groups, up to
  150.4 Unhealthy, up to 250.4 Very Unhealthy, and a value above 250.4 Hazardous, each
  with its fixed colour.
\<close>

theorem get_aqi_level_table:
  "get_aqi_level None = \<lparr>level = ''Unknown'', color = ''#aaaaaa''\<rparr> \<and>
   (v < 0 \<longrightarrow> get_aqi_level (Some v) = \<lparr>level = ''Unknown'', color = ''#aaaaaa''\<rparr>) \<and>
   (0 \<le> v \<and> v \<le> 12.0 \<longrightarrow>
      get_aqi_level (Some v) = \<lparr>level = ''Good'', color = ''#00e400''\<rparr>) \<and>
   (12.0 < v \<and> v \<le> 35.4 \<longrightarrow>
      get_aqi_level (Some v) = \<lparr>level = ''Moderate'', color = ''#ffff00''\<rparr>) \<and>
   (35.4 < v \<and> v \<le> 55.4 \<longrightarrow>
      get_aqi_level (Some v) =
        \<lparr>level = ''Unhealthy for Sensitive Groups'', color = ''#ff7e00''\<rparr>) \<and>
   (55.4 < v \<and> v \<le> 150.4 \<longrightarrow>
      get_aqi_level (Some v) = \<lparr>level = ''Unhealthy'', color = ''#ff0000''\<rparr>) \<and>
   (150.4 < v \<and> v \<le> 250.4 \<longrightarrow>
      get_aqi_level (Some v) = \<lparr>level = ''Very Unhealthy'', color = ''#8f3f97''\<rparr>) \<and>
   (250.4 < v \<longrightarrow>
      get_aqi_level (Some v) = \<lparr>level = ''Hazardous'', color = ''#7e0023''\<rparr>)"
  by (simp add: get_aqi_level_def)

text \<open>The five boundary cases of the specification, read off the table.\<close>

theorem get_aqi_level_table_witness:
  "level (get_aqi_level (Some 12.0)) = ''Good'' \<and>
   level (get_aqi_level (Some 12.1)) = ''Moderate'' \<and>
   level (get_aqi_level (Some (- 1))) = ''Unknown'' \<and>
   level (get_aqi_level None) = ''Unknown'' \<and>
   level (get_aqi_level (Some 300)) = ''Hazardous''"
  using get_aqi_level_table [of "12.0"] get_aqi_level_table [of "12.1"]
    get_aqi_level_table [of "- 1"] get_aqi_level_table [of 300]
  by simp

section \<open>Properties of the rollout\<close>

text \<open>
  Once \<^verbatim>\<open>predict\<close> has raised on a feature row the loop is over: the model is a
  function, so running more indices from that state changes nothing. The loop over a
  list of indices is therefore the loop over a prefix followed by the loop over the rest.
\<close>

lemma rollout_loop_raised:
  "predict cf = Raised \<Longrightarrow> rollout_loop predict now js (cf, res) = (cf, res)"
  by (cases js) simp_all

lemma rollout_loop_append:
  "rollout_loop predict now (xs @ ys) s =
     rollout_loop predict now ys (rollout_loop predict now xs s)"
proof (induction xs arbitrary: s)
  case Nil
  show ?case by (cases s) simp
next
  case (Cons i xs)
  obtain cf res where s: "s = (cf, res)" by (cases s)
  show ?case
  proof (cases "predict cf")
    case Raised
    then show ?thesis by (simp add: s rollout_loop_raised)
  next
    case (Returned p)
    with Cons show ?thesis by (simp add: s Let_def)
  qed
qed

text \<open>
  C5. Whatever the model, the start time and the number of iterations, the working
  feature row keeps the temperature, humidity, wind speed and wind direction it started
  with: the loop writes \<open>pm25\<close>, \<open>hour\<close> and \<open>day_of_week\<close> only.
\<close>

theorem rollout_weather_held_constant:
  "temperature_2m (fst (rollout_loop predict now js (cf, res))) = temperature_2m cf \<and>
   relative_humidity_2m (fst (rollout_loop predict now js (cf, res))) =
     relative_humidity_2m cf \<and>
   wind_speed_10m (fst (rollout_loop predict now js (cf, res))) = wind_speed_10m cf \<and>
   wind_direction_10m (fst (rollout_loop predict now js (cf, res))) = wind_direction_10m cf"
proof (induction js arbitrary: cf res)
  case Nil
  show ?case by simp
next
  case (Cons i js)
  show ?case
  proof (cases "predict cf")
    case Raised
    then show ?thesis by simp
  next
    case (Returned p)
    then show ?thesis using Cons by (simp add: Let_def)
  qed
qed

subsection \<open>Auxiliary facts about the loop and the clock arithmetic\<close>

lemma round2_nonneg: "0 \<le> x \<Longrightarrow> 0 \<le> round2 x"
proof -
  assume x: "0 \<le> x"
  then have "0 \<le> x * 100" by simp
  then have f: "0 \<le> \<lfloor>x * 100\<rfloor>" by simp
  then have "0 \<le> (of_int \<lfloor>x * 100\<rfloor> :: real)" and "0 \<le> (of_int (\<lfloor>x * 100\<rfloor> + 1) :: real)"
    by simp_all
  then show ?thesis by (simp add: round2_def Let_def)
qed

lemma rollout_loop_step:
  assumes "rollout_loop predict now [0..<k] (f0, []) = (cf, res)" and "predict cf = Returned p"
  shows "rollout_loop predict now [0..<Suc k] (f0, []) =
           (cf\<lparr>pm25 := max 0 p, hour := dt_hour (plus_hours now (Suc k)),
                day_of_week := weekday (plus_hours now (Suc k))\<rparr>,
            res @ [\<lparr>step_hour = strftime_HM (plus_hours now (Suc k)), aqi = round2 (max 0 p)\<rparr>])"
proof -
  have "rollout_loop predict now [0..<Suc k] (f0, []) =
          rollout_loop predict now [k] (rollout_loop predict now [0..<k] (f0, []))"
    using rollout_loop_append [of predict now "[0..<k]" "[k]"] by simp
  with assms show ?thesis by (simp add: Let_def)
qed

lemma rollout_loop_grows:
  "\<exists>ys. snd (rollout_loop predict now js (cf, res)) = res @ ys \<and> length ys \<le> length js"
proof (induction js arbitrary: cf res)
  case Nil
  show ?case by simp
next
  case (Cons i js)
  show ?case
  proof (cases "predict cf")
    case Raised
    then show ?thesis by simp
  next
    case (Returned p)
    obtain ys where "snd (rollout_loop predict now js
        (cf\<lparr>pm25 := max 0 p, hour := dt_hour (plus_hours now (Suc i)),
             day_of_week := weekday (plus_hours now (Suc i))\<rparr>,
         res @ [\<lparr>step_hour = strftime_HM (plus_hours now (Suc i)), aqi = round2 (max 0 p)\<rparr>])) =
        (res @ [\<lparr>step_hour = strftime_HM (plus_hours now (Suc i)), aqi = round2 (max 0 p)\<rparr>]) @ ys
        \<and> length ys \<le> length js"
      using Cons by blast
    with Returned show ?thesis by (simp add: Let_def)
  qed
qed

lemma rollout_loop_short:
  "length (snd (rollout_loop predict now js (cf, res))) < length res + length js \<Longrightarrow>
   predict (fst (rollout_loop predict now js (cf, res))) = Raised"
proof (induction js arbitrary: cf res)
  case Nil
  then show ?case by simp
next
  case (Cons i js)
  show ?case
  proof (cases "predict cf")
    case Raised
    then show ?thesis by simp
  next
    case (Returned p)
    with Cons.prems Cons.IH [of "cf\<lparr>pm25 := max 0 p, hour := dt_hour (plus_hours now (Suc i)),
             day_of_week := weekday (plus_hours now (Suc i))\<rparr>"
        "res @ [\<lparr>step_hour = strftime_HM (plus_hours now (Suc i)), aqi = round2 (max 0 p)\<rparr>]"]
    show ?thesis by (simp add: Let_def)
  qed
qed

lemma rollout_loop_nonneg:
  "list_all (\<lambda>e. 0 \<le> aqi e) res \<Longrightarrow>
   list_all (\<lambda>e. 0 \<le> aqi e) (snd (rollout_loop predict now js (cf, res)))"
proof (induction js arbitrary: cf res)
  case Nil
  then show ?case by simp
next
  case (Cons i js)
  show ?case
  proof (cases "predict cf")
    case Raised
    with Cons.prems show ?thesis by simp
  next
    case (Returned p)
    have "list_all (\<lambda>e. 0 \<le> aqi e)
            (res @ [\<lparr>step_hour = strftime_HM (plus_hours now (Suc i)), aqi = round2 (max 0 p)\<rparr>])"
      using Cons.prems by (simp add: round2_nonneg)
    from Cons.IH [OF this] Returned show ?thesis by (simp add: Let_def)
  qed
qed

lemma rollout_loop_labels:
  "map step_hour (snd (rollout_loop predict now js (cf, res))) =
     map step_hour res @
       map (\<lambda>i. strftime_HM (plus_hours now (Suc i)))
         (take (length (snd (rollout_loop predict now js (cf, res))) - length res) js)"
proof (induction js arbitrary: cf res)
  case Nil
  show ?case by simp
next
  case (Cons i js)
  show ?case
  proof (cases "predict cf")
    case Raised
    then show ?thesis by simp
  next
    case (Returned p)
    let ?cf = "cf\<lparr>pm25 := max 0 p, hour := dt_hour (plus_hours now (Suc i)),
             day_of_week := weekday (plus_hours now (Suc i))\<rparr>"
    let ?res = "res @ [\<lparr>step_hour = strftime_HM (plus_hours now (Suc i)), aqi = round2 (max 0 p)\<rparr>]"
    obtain ys where ys: "snd (rollout_loop predict now js (?cf, ?res)) = ?res @ ys"
      using rollout_loop_grows by blast
    have "length (snd (rollout_loop predict now js (?cf, ?res))) - length res =
          Suc (length (snd (rollout_loop predict now js (?cf, ?res))) - length ?res)"
      by (simp add: ys)
    with Cons.IH [of ?cf ?res] Returned show ?thesis by (simp add: Let_def)
  qed
qed

lemma instant_plus_hours: "instant (plus_hours now k) = instant now + 3600 * k"
proof -
  let ?total = "dt_hour now * 3600 + dt_minute now * 60 + dt_second now + k * 3600"
  have a: "(?total mod 86400) div 3600 * 3600 + (?total mod 86400) mod 3600 = ?total mod 86400"
    by (rule div_mult_mod_eq)
  have b: "((?total mod 86400) mod 3600) div 60 * 60 + ((?total mod 86400) mod 3600) mod 60 =
           (?total mod 86400) mod 3600"
    by (rule div_mult_mod_eq)
  have c: "?total div 86400 * 86400 + ?total mod 86400 = ?total"
    by (rule div_mult_mod_eq)
  have "instant (plus_hours now k) =
          dt_ordinal now * 86400 + (?total div 86400 * 86400 +
            ((?total mod 86400) div 3600 * 3600 +
              (((?total mod 86400) mod 3600) div 60 * 60 + ((?total mod 86400) mod 3600) mod 60)))"
    by (simp add: instant_def plus_hours_def Let_def algebra_simps)
  also have "\<dots> = dt_ordinal now * 86400 + ?total"
    by (simp only: a b c)
  finally show ?thesis by (simp add: instant_def)
qed

lemma seconds_of_day:
  assumes "m < 60" and "s < (60::nat)"
  shows "(q * 3600 + m * 60 + s) mod 86400 = q mod 24 * 3600 + (m * 60 + s)"
proof -
  have e: "q * 3600 + m * 60 + s = q mod 24 * 3600 + (m * 60 + s) + q div 24 * 86400"
    using div_mult_mod_eq [of q 24] by linarith
  have "q mod 24 < 24" by simp
  then have "q mod 24 * 3600 + (m * 60 + s) < 86400" using assms by linarith
  then show ?thesis by (simp add: e)
qed

lemma strftime_plus_hours:
  assumes "dt_minute now < 60" and "dt_second now < 60"
  shows "strftime_HM (plus_hours now k) =
           two_digits ((dt_hour now + k) mod 24) @ '':'' @ two_digits (dt_minute now)"
proof -
  have t: "dt_hour now * 3600 + dt_minute now * 60 + dt_second now + k * 3600 =
           (dt_hour now + k) * 3600 + dt_minute now * 60 + dt_second now"
    by (simp add: algebra_simps)
  have r: "dt_minute now * 60 + dt_second now < 3600" using assms by linarith
  have h: "((dt_hour now + k) mod 24 * 3600 + (dt_minute now * 60 + dt_second now)) div 3600 =
           (dt_hour now + k) mod 24"
    using r by simp
  have m: "((dt_hour now + k) mod 24 * 3600 + (dt_minute now * 60 + dt_second now)) mod 3600 =
           dt_minute now * 60 + dt_second now"
    using r by simp
  have m': "(dt_minute now * 60 + dt_second now) div 60 = dt_minute now"
    using assms by simp
  have m'': "(dt_minute now * 60 + dt_second now) mod 3600 = dt_minute now * 60 + dt_second now"
    using r by simp
  show ?thesis
    unfolding strftime_HM_def plus_hours_def Let_def t seconds_of_day [OF assms]
    by (simp add: h m m' m'')
qed

lemma dt_hour_plus_hours:
  assumes "dt_minute now < 60" and "dt_second now < 60"
  shows "dt_hour (plus_hours now k) = (dt_hour now + k) mod 24"
proof -
  have t: "dt_hour now * 3600 + dt_minute now * 60 + dt_second now + k * 3600 =
           (dt_hour now + k) * 3600 + dt_minute now * 60 + dt_second now"
    by (simp add: algebra_simps)
  have r: "dt_minute now * 60 + dt_second now < 3600" using assms by linarith
  show ?thesis
    unfolding plus_hours_def Let_def t seconds_of_day [OF assms]
    using r by simp
qed

lemma rollout_loop_entry:
  assumes "k < length (snd (rollout_loop predict now [0..<n] (f0, [])))"
  shows "\<exists>cf res p. rollout_loop predict now [0..<k] (f0, []) = (cf, res) \<and> length res = k \<and>
           predict cf = Returned p \<and>
           snd (rollout_loop predict now [0..<n] (f0, [])) ! k =
             \<lparr>step_hour = strftime_HM (plus_hours now (Suc k)), aqi = round2 (max 0 p)\<rparr>"
proof -
  obtain cf res where kr: "rollout_loop predict now [0..<k] (f0, []) = (cf, res)"
    by (cases "rollout_loop predict now [0..<k] (f0, [])")
  obtain ys where "snd (rollout_loop predict now [0..<n] (f0, [])) = [] @ ys" and "length ys \<le> length [0..<n]"
    using rollout_loop_grows [of predict now "[0..<n]" f0 "[]"] by blast
  with assms have kn: "k < n" by simp
  then have split: "[0..<n] = [0..<k] @ [k..<n]"
    by (metis le_add_diff_inverse less_imp_le_nat upt_add_eq_append zero_le)
  have whole: "rollout_loop predict now [0..<n] (f0, []) = rollout_loop predict now [k..<n] (cf, res)"
    using rollout_loop_append [of predict now "[0..<k]" "[k..<n]" "(f0, [])"] split kr by simp
  have le: "length res \<le> k"
    using rollout_loop_grows [of predict now "[0..<k]" f0 "[]"] kr by auto
  have notraised: "predict cf \<noteq> Raised"
  proof
    assume "predict cf = Raised"
    then have "rollout_loop predict now [0..<n] (f0, []) = (cf, res)"
      using whole by (simp add: rollout_loop_raised)
    with assms le show False by simp
  qed
  have len: "length res = k"
  proof (rule ccontr)
    assume "length res \<noteq> k"
    with le have "length (snd (rollout_loop predict now [0..<k] (f0, []))) < length ([]::forecast_entry list) + length [0..<k]"
      by (simp add: kr)
    from rollout_loop_short [OF this] kr notraised show False by simp
  qed
  obtain p where p: "predict cf = Returned p"
    using notraised by (cases "predict cf") auto
  let ?e = "\<lparr>step_hour = strftime_HM (plus_hours now (Suc k)), aqi = round2 (max 0 p)\<rparr>"
  let ?cf = "cf\<lparr>pm25 := max 0 p, hour := dt_hour (plus_hours now (Suc k)),
                day_of_week := weekday (plus_hours now (Suc k))\<rparr>"
  have "[k..<n] = k # [Suc k..<n]" using kn by (simp add: upt_conv_Cons)
  then have "rollout_loop predict now [0..<n] (f0, []) =
               rollout_loop predict now [Suc k..<n] (?cf, res @ [?e])"
    using whole p by (simp add: Let_def)
  moreover obtain zs where "snd (rollout_loop predict now [Suc k..<n] (?cf, res @ [?e])) = (res @ [?e]) @ zs"
    using rollout_loop_grows by blast
  ultimately have "snd (rollout_loop predict now [0..<n] (f0, [])) ! k = ?e"
    using len by (simp add: nth_append)
  with kr len p show ?thesis by blast
qed

lemma upt_6: "[0..<6] = [0, 1, 2, 3, 4, 5]"
  by (simp add: upt_conv_Cons eval_nat_numeral)

lemma example_features_eq:
  "example_features = \<lparr>pm25 = 10, temperature_2m = 18, relative_humidity_2m = 60,
     wind_speed_10m = 5, wind_direction_10m = 180, hour = 0, day_of_week = 0\<rparr>"
  by (simp add: example_features_def feature_data_def get_or_def example_now_def weekday_def)

lemma example_now_valid:
  "dt_hour example_now = 0" "dt_minute example_now = 30" "dt_second example_now = 15"
  "dt_ordinal example_now = 739922"
  by (simp_all add: example_now_def)

lemma two_digits_values:
  "two_digits 0 = ''00''" "two_digits 1 = ''01''" "two_digits 2 = ''02''" "two_digits 3 = ''03''"
  "two_digits 4 = ''04''" "two_digits 5 = ''05''" "two_digits 6 = ''06''" "two_digits 30 = ''30''"
  "two_digits 11 = ''11''" "two_digits 13 = ''13''" "two_digits 14 = ''14''" "two_digits 15 = ''15''"
  "two_digits 16 = ''16''" "two_digits 17 = ''17''" "two_digits 59 = ''59''"
  "two_digits (Suc 0) = ''01''" "two_digits (Suc (Suc 0)) = ''02''"
  by (simp_all add: two_digits_def digit_def)

subsection \<open>The claims about the rollout\<close>

text \<open>
  C2. Autoregressive feedback, floor before feedback: when the loop has run \<open>k\<close>
  iterations and the model returns \<open>p\<close> on the feature row it is given next, the row
  that goes into iteration \<open>k + 2\<close> holds \<open>max 0 p\<close> as its \<open>pm25\<close>, and the hour
  and weekday of the start time plus \<open>k + 1\<close> hours. For the stub model that adds one
  to \<open>pm25\<close>, a row with \<open>pm25 = 10\<close> and a start time in hour 0, three iterations
  record 11, 12 and 13 under the hours 01, 02 and 03, and the rows after one, two and
  three iterations carry the hours 1, 2 and 3.
\<close>

theorem rollout_autoregressive_feedback:
  "(rollout_loop predict now [0..<k] (f0, []) = (cf, res) \<and> predict cf = Returned p \<longrightarrow>
      fst (rollout_loop predict now [0..<Suc k] (f0, [])) =
        cf\<lparr>pm25 := max 0 p, hour := dt_hour (plus_hours now (Suc k)),
           day_of_week := weekday (plus_hours now (Suc k))\<rparr>) \<and>
   (pm25 g = 10 \<and> dt_hour t0 = 0 \<and> dt_minute t0 < 60 \<and> dt_second t0 < 60 \<longrightarrow>
      map aqi (snd (rollout_loop (\<lambda>f. Returned (pm25 f + 1)) t0 [0..<3] (g, []))) = [11, 12, 13] \<and>
      map step_hour (snd (rollout_loop (\<lambda>f. Returned (pm25 f + 1)) t0 [0..<3] (g, []))) =
        [''01:'' @ two_digits (dt_minute t0), ''02:'' @ two_digits (dt_minute t0),
         ''03:'' @ two_digits (dt_minute t0)] \<and>
      map (\<lambda>k. hour (fst (rollout_loop (\<lambda>f. Returned (pm25 f + 1)) t0 [0..<k] (g, []))))
        [1, 2, 3] = [1, 2, 3])"
proof (intro conjI impI)
  assume "rollout_loop predict now [0..<k] (f0, []) = (cf, res) \<and> predict cf = Returned p"
  then show "fst (rollout_loop predict now [0..<Suc k] (f0, [])) =
        cf\<lparr>pm25 := max 0 p, hour := dt_hour (plus_hours now (Suc k)),
           day_of_week := weekday (plus_hours now (Suc k))\<rparr>"
    using rollout_loop_step [of predict now k f0 cf res p] by simp
next
  assume a: "pm25 g = 10 \<and> dt_hour t0 = 0 \<and> dt_minute t0 < 60 \<and> dt_second t0 < 60"
  have u3: "[0..<3] = [0, 1, 2]" by (simp add: upt_conv_Cons numeral_3_eq_3)
  have u2: "[0..<2] = [0, 1]" by (simp add: upt_conv_Cons numeral_2_eq_2)
  have u1: "[0..<1] = [0]" by simp
  have r: "round2 11 = 11" "round2 12 = 12" "round2 13 = 13" by (simp_all add: round2_def)
  have s: "\<And>k. strftime_HM (plus_hours t0 k) = two_digits (k mod 24) @ '':'' @ two_digits (dt_minute t0)"
    using a strftime_plus_hours [of t0] by simp
  have h: "\<And>k. dt_hour (plus_hours t0 k) = k mod 24"
    using a dt_hour_plus_hours [of t0] by simp
  have d: "two_digits 1 = ''01''" "two_digits 2 = ''02''" "two_digits 3 = ''03''"
    "two_digits (Suc 0) = ''01''" "two_digits (Suc (Suc 0)) = ''02''"
    "two_digits (Suc (Suc (Suc 0))) = ''03''"
    by (simp_all add: two_digits_def digit_def)
  show "map aqi (snd (rollout_loop (\<lambda>f. Returned (pm25 f + 1)) t0 [0..<3] (g, []))) = [11, 12, 13]"
    using a by (simp add: u3 Let_def r)
  show "map step_hour (snd (rollout_loop (\<lambda>f. Returned (pm25 f + 1)) t0 [0..<3] (g, []))) =
        [''01:'' @ two_digits (dt_minute t0), ''02:'' @ two_digits (dt_minute t0),
         ''03:'' @ two_digits (dt_minute t0)]"
    by (simp add: u3 Let_def s d)
  show "map (\<lambda>k. hour (fst (rollout_loop (\<lambda>f. Returned (pm25 f + 1)) t0 [0..<k] (g, []))))
        [1, 2, 3] = [1, 2, 3]"
    by (simp add: u1 u2 u3 Let_def h)
qed

text \<open>The stub model run from the example row on Monday 2026-11-02, 00:30:15.\<close>

theorem rollout_autoregressive_feedback_witness:
  "fst (rollout_loop stub_model example_now [0..<Suc 0] (example_features, [])) =
     example_features\<lparr>pm25 := 11, hour := 1, day_of_week := 0\<rparr> \<and>
   map aqi (snd (rollout_loop stub_model example_now [0..<3] (example_features, []))) =
     [11, 12, 13] \<and>
   map step_hour (snd (rollout_loop stub_model example_now [0..<3] (example_features, []))) =
     [''01:30'', ''02:30'', ''03:30'']"
proof -
  have s: "stub_model = (\<lambda>f. Returned (pm25 f + 1))"
    by (simp add: stub_model_def fun_eq_iff)
  have a: "rollout_loop stub_model example_now [0..<0] (example_features, []) =
             (example_features, []) \<and> stub_model example_features = Returned 11"
    by (simp add: stub_model_def example_features_eq)
  have b: "pm25 example_features = 10 \<and> dt_hour example_now = 0 \<and>
           dt_minute example_now < 60 \<and> dt_second example_now < 60"
    by (simp add: example_features_eq example_now_valid)
  have h: "dt_hour (plus_hours example_now (Suc 0)) = 1"
    using dt_hour_plus_hours [of example_now "Suc 0"] by (simp add: example_now_valid)
  have w: "weekday (plus_hours example_now (Suc 0)) = 0"
    by (simp add: weekday_def plus_hours_def example_now_def Let_def)
  from rollout_autoregressive_feedback
    [of stub_model example_now 0 example_features example_features "[]" 11
        example_features example_now] a b
  show ?thesis by (simp add: s h w example_now_valid two_digits_values)
qed

text \<open>
  C3. Whatever the model returns, every value the rollout records is at least 0, and it
  is the model's raw prediction for that step raised to 0 by \<^verbatim>\<open>max(0, ...)\<close> and then
  rounded: the entry of step \<open>k + 1\<close> holds \<open>round2 (max 0 p)\<close>, where \<open>p\<close> is what
  the model returns on the feature row after \<open>k\<close> iterations, and it holds 0 when
  \<open>p\<close> is negative.
\<close>

theorem rollout_nonnegative:
  "list_all (\<lambda>e. 0 \<le> aqi e) (snd (rollout_loop predict now js (cf, []))) \<and>
   (k < length (snd (rollout_loop predict now [0..<n] (f0, []))) \<longrightarrow>
      (\<exists>p. predict (fst (rollout_loop predict now [0..<k] (f0, []))) = Returned p \<and>
           aqi (snd (rollout_loop predict now [0..<n] (f0, [])) ! k) = round2 (max 0 p) \<and>
           (p < 0 \<longrightarrow> aqi (snd (rollout_loop predict now [0..<n] (f0, [])) ! k) = 0) \<and>
           0 \<le> aqi (snd (rollout_loop predict now [0..<n] (f0, [])) ! k)))"
proof (intro conjI impI)
  show "list_all (\<lambda>e. 0 \<le> aqi e) (snd (rollout_loop predict now js (cf, [])))"
    using rollout_loop_nonneg [of "[]" predict now js cf] by simp
next
  assume "k < length (snd (rollout_loop predict now [0..<n] (f0, [])))"
  then obtain cf' res' p where
    kr: "rollout_loop predict now [0..<k] (f0, []) = (cf', res')" and
    p: "predict cf' = Returned p" and
    e: "snd (rollout_loop predict now [0..<n] (f0, [])) ! k =
          \<lparr>step_hour = strftime_HM (plus_hours now (Suc k)), aqi = round2 (max 0 p)\<rparr>"
    using rollout_loop_entry [of k predict now n f0] by blast
  have z: "round2 0 = 0" by (simp add: round2_def)
  have "predict (fst (rollout_loop predict now [0..<k] (f0, []))) = Returned p"
    by (simp add: kr p)
  moreover have "aqi (snd (rollout_loop predict now [0..<n] (f0, [])) ! k) = round2 (max 0 p)"
    by (simp add: e)
  moreover have "p < 0 \<longrightarrow> aqi (snd (rollout_loop predict now [0..<n] (f0, [])) ! k) = 0"
    by (simp add: e max_def z)
  moreover have "0 \<le> aqi (snd (rollout_loop predict now [0..<n] (f0, [])) ! k)"
    by (simp add: e round2_nonneg)
  ultimately show "\<exists>p. predict (fst (rollout_loop predict now [0..<k] (f0, []))) = Returned p \<and>
           aqi (snd (rollout_loop predict now [0..<n] (f0, [])) ! k) = round2 (max 0 p) \<and>
           (p < 0 \<longrightarrow> aqi (snd (rollout_loop predict now [0..<n] (f0, [])) ! k) = 0) \<and>
           0 \<le> aqi (snd (rollout_loop predict now [0..<n] (f0, [])) ! k)"
    by blast
qed

text \<open>
  A model that always returns \<open>- 5\<close> records six entries, each 0; the stub model, which
  returns 11 on the example row, records 11 in its first entry.
\<close>

theorem rollout_nonnegative_witness:
  "list_all (\<lambda>e. 0 \<le> aqi e)
     (snd (rollout_loop negative_model example_now [0..<6] (example_features, []))) \<and>
   map aqi (snd (rollout_loop negative_model example_now [0..<6] (example_features, []))) =
     [0, 0, 0, 0, 0, 0] \<and>
   aqi (snd (rollout_loop negative_model example_now [0..<6] (example_features, [])) ! 2) = 0 \<and>
   aqi (snd (rollout_loop stub_model example_now [0..<6] (example_features, [])) ! 0) = 11"
proof -
  have r: "round2 0 = 0" by (simp add: round2_def)
  have r11: "round2 11 = 11" by (simp add: round2_def)
  have m: "map aqi (snd (rollout_loop negative_model example_now [0..<6] (example_features, []))) =
     [0, 0, 0, 0, 0, 0]"
    by (simp add: upt_6 negative_model_def Let_def r)
  have ln: "2 < length (snd (rollout_loop negative_model example_now [0..<6] (example_features, [])))"
    by (simp add: upt_6 negative_model_def Let_def)
  have ls: "0 < length (snd (rollout_loop stub_model example_now [0..<6] (example_features, [])))"
    by (simp add: upt_6 stub_model_def Let_def)
  note tn = rollout_nonnegative [of negative_model example_now "[0..<6]" example_features 2 6 example_features]
  note ts = rollout_nonnegative [of stub_model example_now "[0..<6]" example_features 0 6 example_features]
  from tn have a: "list_all (\<lambda>e. 0 \<le> aqi e)
     (snd (rollout_loop negative_model example_now [0..<6] (example_features, [])))"
    by blast
  from tn ln obtain p where
    "negative_model (fst (rollout_loop negative_model example_now [0..<2] (example_features, []))) =
       Returned p"
    and "p < 0 \<longrightarrow>
       aqi (snd (rollout_loop negative_model example_now [0..<6] (example_features, [])) ! 2) = 0"
    by blast
  then have b: "aqi (snd (rollout_loop negative_model example_now [0..<6] (example_features, [])) ! 2) = 0"
    by (simp add: negative_model_def)
  from ts ls obtain q where
    "stub_model (fst (rollout_loop stub_model example_now [0..<0] (example_features, []))) =
       Returned q"
    and "aqi (snd (rollout_loop stub_model example_now [0..<6] (example_features, [])) ! 0) =
       round2 (max 0 q)"
    by blast
  then have c: "aqi (snd (rollout_loop stub_model example_now [0..<6] (example_features, [])) ! 0) = 11"
    by (auto simp: stub_model_def example_features_eq r11)
  from a m b c show ?thesis by blast
qed

text \<open>
  C7. The entries the rollout started at \<open>now\<close> has recorded carry, in order, the
  times \<open>now\<close> plus 1, 2, ... hours, formatted by \<^verbatim>\<open>strftime("%H:%M")\<close>. These instants
  lie exactly one hour (3600 seconds) apart, and for a start time with minute and second
  below 60 the label shows the hour of the day \<open>(dt_hour now + i) mod 24\<close> and the
  minute of \<open>now\<close>.
\<close>

theorem rollout_timestamps:
  "map step_hour (snd (rollout_loop predict now [0..<n] (cf, []))) =
     map (\<lambda>i. strftime_HM (plus_hours now (Suc i)))
       [0..<length (snd (rollout_loop predict now [0..<n] (cf, [])))] \<and>
   instant (plus_hours now i) = instant now + 3600 * i \<and>
   instant (plus_hours now (Suc i)) = instant (plus_hours now i) + 3600 \<and>
   (dt_minute now < 60 \<and> dt_second now < 60 \<longrightarrow>
      strftime_HM (plus_hours now i) =
        two_digits ((dt_hour now + i) mod 24) @ '':'' @ two_digits (dt_minute now))"
proof (intro conjI impI)
  let ?out = "snd (rollout_loop predict now [0..<n] (cf, []))"
  obtain ys where "?out = [] @ ys" and "length ys \<le> length [0..<n]"
    using rollout_loop_grows [of predict now "[0..<n]" cf "[]"] by blast
  then have "length ?out \<le> n" by simp
  then have "take (length ?out) [0..<n] = [0..<length ?out]" by (simp add: take_upt)
  with rollout_loop_labels [of predict now "[0..<n]" cf "[]"]
  show "map step_hour ?out = map (\<lambda>i. strftime_HM (plus_hours now (Suc i))) [0..<length ?out]"
    by simp
next
  show "instant (plus_hours now i) = instant now + 3600 * i"
    by (rule instant_plus_hours)
next
  show "instant (plus_hours now (Suc i)) = instant (plus_hours now i) + 3600"
    by (simp add: instant_plus_hours)
next
  assume "dt_minute now < 60 \<and> dt_second now < 60"
  then show "strftime_HM (plus_hours now i) =
        two_digits ((dt_hour now + i) mod 24) @ '':'' @ two_digits (dt_minute now)"
    by (simp add: strftime_plus_hours)
qed

text \<open>The six labels of the stub model's rollout from 00:30:15.\<close>

theorem rollout_timestamps_witness:
  "map step_hour (snd (rollout_loop stub_model example_now [0..<6] (example_features, []))) =
     [''01:30'', ''02:30'', ''03:30'', ''04:30'', ''05:30'', ''06:30''] \<and>
   instant (plus_hours example_now 2) = instant example_now + 7200 \<and>
   strftime_HM (plus_hours example_now 2) = ''02:30''"
proof -
  let ?out = "snd (rollout_loop stub_model example_now [0..<6] (example_features, []))"
  have len: "length ?out = 6"
    by (simp add: upt_6 stub_model_def Let_def)
  have v: "dt_minute example_now < 60 \<and> dt_second example_now < 60"
    by (simp add: example_now_valid)
  note t = rollout_timestamps [of stub_model example_now 6 example_features 2]
  have s: "\<And>k. strftime_HM (plus_hours example_now k) = two_digits (k mod 24) @ '':30''"
    using strftime_plus_hours [of example_now] by (simp add: example_now_valid two_digits_values)
  have "map step_hour ?out =
          map (\<lambda>i. strftime_HM (plus_hours example_now (Suc i))) [0..<length ?out]"
    using t by blast
  then have "map step_hour ?out =
          map (\<lambda>i. strftime_HM (plus_hours example_now (Suc i))) [0..<6]"
    by (simp only: len)
  moreover have "map (\<lambda>i. strftime_HM (plus_hours example_now (Suc i))) [0..<6] =
      [''01:30'', ''02:30'', ''03:30'', ''04:30'', ''05:30'', ''06:30'']"
    by (simp add: upt_6 s two_digits_values)
  ultimately have c1: "map step_hour ?out =
      [''01:30'', ''02:30'', ''03:30'', ''04:30'', ''05:30'', ''06:30'']"
    by (rule trans)
  have c2: "instant (plus_hours example_now 2) = instant example_now + 7200"
    using t by simp
  have "strftime_HM (plus_hours example_now 2) =
          two_digits ((dt_hour example_now + 2) mod 24) @ '':'' @ two_digits (dt_minute example_now)"
    using t v by blast
  then have c3: "strftime_HM (plus_hours example_now 2) = ''02:30''"
    by (simp add: example_now_valid two_digits_values)
  from c1 c2 c3 show ?thesis by blast
qed

text \<open>
  C10. The value recorded at step \<open>k + 1\<close> is \<open>round2\<close> of the \<open>pm25\<close> that is fed
  back after that step, and the value fed back is the prediction raised to 0, not
  rounded.
\<close>

theorem recorded_value_rounds_feedback:
  "(k < length (snd (rollout_loop predict now [0..<n] (f0, []))) \<longrightarrow>
      aqi (snd (rollout_loop predict now [0..<n] (f0, [])) ! k) =
        round2 (pm25 (fst (rollout_loop predict now [0..<Suc k] (f0, []))))) \<and>
   (rollout_loop predict now [0..<k] (f0, []) = (cf, res) \<and> predict cf = Returned p \<longrightarrow>
      pm25 (fst (rollout_loop predict now [0..<Suc k] (f0, []))) = max 0 p)"
proof (intro conjI impI)
  assume "k < length (snd (rollout_loop predict now [0..<n] (f0, [])))"
  then obtain cf' res' p' where
    kr: "rollout_loop predict now [0..<k] (f0, []) = (cf', res')" and
    p: "predict cf' = Returned p'" and
    e: "snd (rollout_loop predict now [0..<n] (f0, [])) ! k =
          \<lparr>step_hour = strftime_HM (plus_hours now (Suc k)), aqi = round2 (max 0 p')\<rparr>"
    using rollout_loop_entry [of k predict now n f0] by blast
  from rollout_loop_step [OF kr p] e
  show "aqi (snd (rollout_loop predict now [0..<n] (f0, [])) ! k) =
        round2 (pm25 (fst (rollout_loop predict now [0..<Suc k] (f0, []))))"
    by simp
next
  assume "rollout_loop predict now [0..<k] (f0, []) = (cf, res) \<and> predict cf = Returned p"
  then show "pm25 (fst (rollout_loop predict now [0..<Suc k] (f0, []))) = max 0 p"
    using rollout_loop_step [of predict now k f0 cf res p] by simp
qed

text \<open>
  A model that returns 1.234: the first entry records 1.23, the row fed back holds 1.234.
\<close>

theorem recorded_value_rounds_feedback_witness:
  "aqi (snd (rollout_loop fractional_model example_now [0..<6] (example_features, [])) ! 0) = 1.23 \<and>
   pm25 (fst (rollout_loop fractional_model example_now [0..<Suc 0] (example_features, []))) = 1.234"
proof -
  have len: "0 < length (snd (rollout_loop fractional_model example_now [0..<6] (example_features, [])))"
    by (simp add: upt_6 fractional_model_def Let_def)
  have st: "rollout_loop fractional_model example_now [0..<0] (example_features, []) =
              (example_features, []) \<and> fractional_model example_features = Returned 1.234"
    by (simp add: fractional_model_def)
  note t = recorded_value_rounds_feedback
    [of 0 fractional_model example_now 6 example_features example_features "[]" "1.234"]
  have fed: "pm25 (fst (rollout_loop fractional_model example_now [0..<Suc 0] (example_features, []))) = 1.234"
    using t st by simp
  have "aqi (snd (rollout_loop fractional_model example_now [0..<6] (example_features, [])) ! 0) =
        round2 (pm25 (fst (rollout_loop fractional_model example_now [0..<Suc 0] (example_features, []))))"
    using t len by blast
  also have "\<dots> = round2 1.234" by (simp only: fed)
  also have "\<dots> = 1.23" by (simp add: round2_def)
  finally show ?thesis using fed by blast
qed

section \<open>Properties of the forecast as the handler returns it\<close>

text \<open>
  C1 says that the forecast always has six entries and that a failure at any step gives
  the full constant projection. The code keeps the entries recorded before the failure:
  the fallback runs only when \<^verbatim>\<open>forecast_results\<close> is empty. With the default reading
  25 and a model that returns 7 on the first row and raises on the second, the forecast
  of the response is the single entry of the first step.
\<close>

theorem partial_forecast_is_returned:
  "generate_forecast (Some failing_model) clk wd 25 =
     [\<lparr>step_hour = strftime_HM (plus_hours (clk 0) 1), aqi = 7\<rparr>] \<and>
   (\<exists>r. get_sensor_data (Some failing_model)
           \<lparr>coordinates = Some (lat, lon), weather = Returned wd, waqi_exchange = Raised,
            tempo_data = td, clock = clk\<rparr> = Inr r \<and>
         length (forecast_data r) = 1)"
proof -
  have r7: "round2 7 = 7" by (simp add: round2_def)
  have g: "generate_forecast (Some failing_model) clk wd 25 =
     [\<lparr>step_hour = strftime_HM (plus_hours (clk 0) 1), aqi = 7\<rparr>]"
    by (simp add: generate_forecast_def upt_6 Let_def rollout_loop_raised failing_model_def
        feature_data_def r7)
  have "get_sensor_data (Some failing_model)
           \<lparr>coordinates = Some (lat, lon), weather = Returned wd, waqi_exchange = Raised,
            tempo_data = td, clock = clk\<rparr> =
        Inr \<lparr>ground_data = \<lparr>location = JStr ''Regional Estimate'', ground_value = round2 25,
                unit = ''ug/m3'', level_info = get_aqi_level (Some 25)\<rparr>,
             weather_data = wd, satellite_data = td,
             forecast_data = generate_forecast (Some failing_model) clk wd 25\<rparr>"
    by (simp add: get_sensor_data_def ground_reading_def)
  with g show ?thesis by simp
qed

text \<open>
  C4 says that the fallback's timestamps step by one hour. The fallback loop reads the
  clock anew in each iteration, where the rollout reads it once: when the minute turns
  between the first and the second iteration, the first two labels lie one hour and one
  minute apart.
\<close>

theorem fallback_labels_skip_a_minute:
  "map step_hour (generate_forecast None minute_turn_clock wd v) =
     [''11:59'', ''13:00'', ''14:00'', ''15:00'', ''16:00'', ''17:00'']"
  by (simp add: generate_forecast_def upt_6 Let_def minute_turn_clock_def plus_hours_def
      strftime_HM_def two_digits_values)

section \<open>Properties of the ground reading\<close>

text \<open>
  The code's chain of \<^verbatim>\<open>get\<close>, \<^verbatim>\<open>in\<close> and indexing, with its exceptions, finds the
  reading exactly when the document offers one: without one both variables keep their
  defaults, with one \<^verbatim>\<open>pm25_value\<close> is that reading.
\<close>

lemma item_member: "item x k = (case json_member x k of None \<Rightarrow> Raised | Some v \<Rightarrow> Returned v)"
  by (cases x) simp_all

lemma contains_obj: "contains k (JObj kvs) = Returned (map_of kvs k \<noteq> None)"
  by (simp add: map_of_eq_None_iff)

lemma pm25_lookup:
  "and_then (and_then (item d ''iaqi'') (\<lambda>q. item q ''pm25'')) (\<lambda>e. item e ''v'') =
     (case Option.bind (Option.bind (json_member d ''iaqi'') (\<lambda>q. json_member q ''pm25''))
             (\<lambda>e. json_member e ''v'') of
        None \<Rightarrow> Raised | Some v \<Rightarrow> Returned v)"
  by (simp add: and_then_def item_member split: option.splits)


lemma read_waqi_available:
  assumes "waqi_reading (Returned doc) = Some v"
  shows "fst (read_waqi doc vars) = v"
proof (cases doc)
  case (JObj kvs)
  obtain a b where vars: "vars = (a, b)" by (cases vars)
  from assms have st: "map_of kvs ''status'' = Some (JStr ''ok'')"
    by (simp add: waqi_reading_def JObj split: if_splits)
  with assms obtain d q e where d: "map_of kvs ''data'' = Some d" and q: "json_member d ''iaqi'' = Some q"
    and e: "json_member q ''pm25'' = Some e" and v: "json_member e ''v'' = Some v"
    by (auto simp: waqi_reading_def JObj Option.bind_eq_Some_conv)
  obtain dk where dk: "d = JObj dk" using q by (cases d) simp_all
  obtain qk where qk: "q = JObj qk" using e by (cases q) simp_all
  have look: "and_then (and_then (item d ''iaqi'') (\<lambda>q. item q ''pm25'')) (\<lambda>e. item e ''v'') = Returned v"
    unfolding pm25_lookup by (simp add: q e v)
  have c: "and_then (dict_get d ''iaqi'' (JObj [])) (contains ''pm25'') = Returned True"
    using q e by (simp add: and_then_def dk qk contains_obj del: contains.simps)
  show ?thesis
    using st d look c
    by (simp add: read_waqi_def JObj vars contains_obj del: contains.simps
        split: attempt.splits)
qed (use assms in \<open>simp_all add: waqi_reading_def\<close>)

text \<open>The forecast of step 4 in its two paths.\<close>

lemma round2_25: "round2 25 = 25" by (simp add: round2_def)

lemma fallback_forecast:
  "generate_forecast None clk wd v =
     map (\<lambda>i. \<lparr>step_hour = strftime_HM (plus_hours (clk i) (Suc i)), aqi = round2 v\<rparr>) [0..<6]"
  by (simp add: generate_forecast_def upt_6 eval_nat_numeral)

lemma fallback_after_failure:
  "fallback_loop clk 1 v [0..<6] [] =
     map (\<lambda>i. \<lparr>step_hour = strftime_HM (plus_hours (clk (Suc i)) (Suc i)), aqi = round2 v\<rparr>) [0..<6]"
  by (simp add: upt_6 eval_nat_numeral)

lemma model_forecast:
  "generate_forecast (Some predict) clk wd v =
     (if snd (rollout_loop predict (clk 0) [0..<6] (feature_data (clk 0) wd v, [])) = []
      then fallback_loop clk 1 v [0..<6] []
      else snd (rollout_loop predict (clk 0) [0..<6] (feature_data (clk 0) wd v, [])))"
  by (simp add: generate_forecast_def)




section \<open>Properties of the training data\<close>

lemma length_shift_up: "length (shift_up xs) = length xs"
  by (cases xs) (simp_all add: shift_up_def)

lemma shift_up_nth:
  "i < length xs \<Longrightarrow> shift_up xs ! i = (if Suc i < length xs then xs ! Suc i else None)"
  by (cases xs) (auto simp: shift_up_def nth_append less_Suc_eq)

lemma length_add_columns: "length (add_columns df) = length df"
  by (simp add: add_columns_def length_shift_up)

lemma add_columns_nth:
  "i < length df \<Longrightarrow>
   add_columns df ! i =
     \<lparr>base = df ! i, s_hour = dt_hour (s_date (df ! i)),
      s_day_of_week = weekday (s_date (df ! i)),
      pm25_next_hour = (if Suc i < length df then s_pm25 (df ! Suc i) else None)\<rparr>"
  by (simp add: add_columns_def length_shift_up shift_up_nth)

lemma gappy_rows:
  "add_columns gappy_frame =
     [\<lparr>base = gappy_frame ! 0, s_hour = 0, s_day_of_week = 0, pm25_next_hour = Some 8\<rparr>,
      \<lparr>base = gappy_frame ! 1, s_hour = 1, s_day_of_week = 0, pm25_next_hour = Some 9\<rparr>,
      \<lparr>base = gappy_frame ! 2, s_hour = 2, s_day_of_week = 0, pm25_next_hour = None\<rparr>]"
  by (simp add: add_columns_def gappy_frame_def shift_up_def weekday_def plus_hours_def
      example_now_def Let_def)

text \<open>
  C8 as stated fails: \<^verbatim>\<open>df.dropna()\<close> drops every row with a missing value in any
  column, not only the rows with a missing target. In the example frame the first row
  has the target 8 and would stay if only missing targets were dropped, but it lacks the
  temperature and is dropped.
\<close>

theorem dropna_drops_row_with_target_counterexample:
  "pm25_next_hour (add_columns gappy_frame ! 0) = Some 8 \<and>
   add_columns gappy_frame ! 0 \<in> set (drop_missing_target (add_columns gappy_frame)) \<and>
   add_columns gappy_frame ! 0 \<notin> set (dropna (add_columns gappy_frame))"
  by (simp add: gappy_rows dropna_def drop_missing_target_def complete_def)
    (simp add: gappy_frame_def)

text \<open>
  C8, amended. For every series of rows \<open>df\<close>, so for the chronologically sorted
  series, the target of a row is the \<open>pm25\<close> of the row after it, and the last row has
  no target. The rows dropped are those with a missing value in any column: the row with
  the missing target (the last row), and also every row with a missing feature value.
  When fewer than 100 rows are left the script exits with status 1 before a model is
  fitted.
\<close>

theorem training_target_and_cleaning:
  "(Suc i < length df \<longrightarrow>
      base (add_columns df ! i) = df ! i \<and>
      pm25_next_hour (add_columns df ! i) = s_pm25 (df ! Suc i)) \<and>
   (df \<noteq> [] \<longrightarrow>
      pm25_next_hour (last (add_columns df)) = None \<and>
      last (add_columns df) \<notin> set (dropna (add_columns df))) \<and>
   (r \<in> set (dropna (add_columns df)) \<longleftrightarrow> r \<in> set (add_columns df) \<and> complete r) \<and>
   (length (dropna (add_columns (dropna_pm25 merged))) < 100 \<longrightarrow>
      prepare_training merged = Inl (Exit 1))"
proof (intro conjI impI)
  assume "Suc i < length df"
  then show "base (add_columns df ! i) = df ! i"
    and "pm25_next_hour (add_columns df ! i) = s_pm25 (df ! Suc i)"
    by (simp_all add: add_columns_nth)
next
  assume ne: "df \<noteq> []"
  then have "add_columns df \<noteq> []"
    using length_add_columns [of df] by (metis length_0_conv)
  then have l: "last (add_columns df) = add_columns df ! (length df - 1)"
    by (simp add: last_conv_nth length_add_columns)
  from ne have "length df - 1 < length df" by (cases df) simp_all
  moreover from ne have "\<not> Suc (length df - 1) < length df" by (cases df) simp_all
  ultimately show t: "pm25_next_hour (last (add_columns df)) = None"
    using l by (simp add: add_columns_nth)
  then show "last (add_columns df) \<notin> set (dropna (add_columns df))"
    by (simp add: dropna_def complete_def)
next
  show "r \<in> set (dropna (add_columns df)) \<longleftrightarrow> r \<in> set (add_columns df) \<and> complete r"
    by (simp add: dropna_def)
next
  assume "length (dropna (add_columns (dropna_pm25 merged))) < 100"
  then show "prepare_training merged = Inl (Exit 1)"
    by (simp add: prepare_training_def Let_def)
qed

text \<open>The three-row example frame: targets, cleaning and the exit.\<close>

theorem training_target_and_cleaning_witness:
  "pm25_next_hour (add_columns gappy_frame ! 0) = Some 8 \<and>
   pm25_next_hour (last (add_columns gappy_frame)) = None \<and>
   last (add_columns gappy_frame) \<notin> set (dropna (add_columns gappy_frame)) \<and>
   add_columns gappy_frame ! 1 \<in> set (dropna (add_columns gappy_frame)) \<and>
   prepare_training gappy_frame = Inl (Exit 1)"
proof -
  have d: "dropna_pm25 gappy_frame = gappy_frame"
    by (simp add: dropna_pm25_def gappy_frame_def)
  have len: "length gappy_frame = 3" by (simp add: gappy_frame_def)
  have c: "complete (add_columns gappy_frame ! 1)"
    by (simp add: gappy_rows complete_def) (simp add: gappy_frame_def)
  have m: "add_columns gappy_frame ! 1 \<in> set (add_columns gappy_frame)"
    by (simp add: gappy_rows)
  have small: "length (dropna (add_columns (dropna_pm25 gappy_frame))) < 100"
    using length_filter_le [of complete "add_columns gappy_frame"]
    by (simp add: d dropna_def length_add_columns len)
  have ne: "gappy_frame \<noteq> []" by (simp add: gappy_frame_def)
  have s: "s_pm25 (gappy_frame ! Suc 0) = Some 8" by (simp add: gappy_frame_def)
  from training_target_and_cleaning
    [of 0 gappy_frame "add_columns gappy_frame ! 1" gappy_frame] len ne c m small s
  show ?thesis by simp
qed

section \<open>Further properties of the handler\<close>

lemma rollout_loop_complete:
  assumes "\<forall>f. predict f \<noteq> Raised"
  shows "length (snd (rollout_loop predict now js (cf, []))) = length js"
proof (rule ccontr)
  assume n: "length (snd (rollout_loop predict now js (cf, []))) \<noteq> length js"
  obtain ys where "snd (rollout_loop predict now js (cf, [])) = [] @ ys" and "length ys \<le> length js"
    using rollout_loop_grows [of predict now js cf "[]"] by blast
  with n have "length (snd (rollout_loop predict now js (cf, []))) < length ([]::forecast_entry list) + length js"
    by simp
  from rollout_loop_short [OF this] assms show False by simp
qed

text \<open>
  X1. The forecast has exactly six entries when no model is loaded, when the first
  prediction raises (then every entry holds the rounded current value), and when no
  prediction raises.
\<close>

theorem forecast_has_six_entries:
  "length (generate_forecast None clk wd v) = 6 \<and>
   (predict (feature_data (clk 0) wd v) = Raised \<longrightarrow>
      length (generate_forecast (Some predict) clk wd v) = 6 \<and>
      map aqi (generate_forecast (Some predict) clk wd v) = replicate 6 (round2 v)) \<and>
   ((\<forall>f. predict' f \<noteq> Raised) \<longrightarrow> length (generate_forecast (Some predict') clk wd v) = 6)"
proof (intro conjI impI)
  show "length (generate_forecast None clk wd v) = 6"
    by (simp add: fallback_forecast)
next
  assume r: "predict (feature_data (clk 0) wd v) = Raised"
  then have g: "generate_forecast (Some predict) clk wd v = fallback_loop clk 1 v [0..<6] []"
    by (simp add: model_forecast rollout_loop_raised)
  show "length (generate_forecast (Some predict) clk wd v) = 6"
    unfolding g fallback_after_failure by simp
  show "map aqi (generate_forecast (Some predict) clk wd v) = replicate 6 (round2 v)"
    unfolding g fallback_after_failure by (simp add: upt_6 eval_nat_numeral)
next
  assume "\<forall>f. predict' f \<noteq> Raised"
  from rollout_loop_complete [OF this, of "clk 0" "[0..<6]" "feature_data (clk 0) wd v"]
  have l: "length (snd (rollout_loop predict' (clk 0) [0..<6] (feature_data (clk 0) wd v, []))) = 6"
    by simp
  then have "snd (rollout_loop predict' (clk 0) [0..<6] (feature_data (clk 0) wd v, [])) \<noteq> []"
    by auto
  with l show "length (generate_forecast (Some predict') clk wd v) = 6"
    by (simp add: model_forecast)
qed

text \<open>
  A model that raises on the first row, with the reading 3, and the stub model, which
  never raises.
\<close>

theorem forecast_has_six_entries_witness:
  "length (generate_forecast (Some failing_model) (\<lambda>n. example_now) Map.empty 3) = 6 \<and>
   map aqi (generate_forecast (Some failing_model) (\<lambda>n. example_now) Map.empty 3) =
     [3, 3, 3, 3, 3, 3] \<and>
   length (generate_forecast (Some stub_model) (\<lambda>n. example_now) Map.empty 10) = 6"
proof -
  have r: "failing_model (feature_data example_now Map.empty 3) = Raised"
    by (simp add: failing_model_def feature_data_def)
  have s: "\<forall>f. stub_model f \<noteq> Raised" by (simp add: stub_model_def)
  have r3: "round2 3 = 3" by (simp add: round2_def)
  from forecast_has_six_entries [of "\<lambda>n. example_now" Map.empty 3 failing_model stub_model] r
  have a: "length (generate_forecast (Some failing_model) (\<lambda>n. example_now) Map.empty 3) = 6"
    and b: "map aqi (generate_forecast (Some failing_model) (\<lambda>n. example_now) Map.empty 3) =
      replicate 6 (round2 3)"
    by simp_all
  from forecast_has_six_entries [of "\<lambda>n. example_now" Map.empty 10 failing_model stub_model] s
  have c: "length (generate_forecast (Some stub_model) (\<lambda>n. example_now) Map.empty 10) = 6"
    by blast
  from a b c show ?thesis by (simp add: r3 eval_nat_numeral)
qed

text \<open>
  X2. Without a model the forecast is six entries holding the rounded current value, the
  \<open>i\<close>-th labelled with what the clock read in that iteration plus \<open>i\<close> hours; when the
  six readings are one and the same time, the labels step by one hour from it.
\<close>

theorem fallback_entries:
  "generate_forecast None clk wd v =
     map (\<lambda>i. \<lparr>step_hour = strftime_HM (plus_hours (clk i) (Suc i)), aqi = round2 v\<rparr>) [0..<6] \<and>
   ((\<forall>i<6. clk i = now) \<longrightarrow>
      generate_forecast None clk wd v =
        map (\<lambda>i. \<lparr>step_hour = strftime_HM (plus_hours now (Suc i)), aqi = round2 v\<rparr>) [0..<6])"
  by (simp add: fallback_forecast)

text \<open>A clock that stands at 00:30:15.\<close>

theorem fallback_entries_witness:
  "generate_forecast None (\<lambda>n. example_now) Map.empty 25 =
     map (\<lambda>l. \<lparr>step_hour = l, aqi = 25\<rparr>)
       [''01:30'', ''02:30'', ''03:30'', ''04:30'', ''05:30'', ''06:30'']"
proof -
  have s: "\<And>k. strftime_HM (plus_hours example_now k) = two_digits (k mod 24) @ '':30''"
    using strftime_plus_hours [of example_now] by (simp add: example_now_valid two_digits_values)
  have "\<forall>i<6. (\<lambda>n. example_now) i = example_now" by simp
  with fallback_entries [of "\<lambda>n. example_now" Map.empty 25 example_now]
  have "generate_forecast None (\<lambda>n. example_now) Map.empty 25 =
        map (\<lambda>i. \<lparr>step_hour = strftime_HM (plus_hours example_now (Suc i)), aqi = round2 25\<rparr>) [0..<6]"
    by blast
  then show ?thesis by (simp add: upt_6 s two_digits_values round2_25)
qed

text \<open>
  X3. When the WAQI exchange offers a number as its reading, that number is what the
  response reports (rounded), classifies, and generates the forecast from.
\<close>

theorem reading_used_when_available:
  "coordinates rq = Some c \<and> weather rq = Returned wd \<and>
   waqi_reading (waqi_exchange rq) = Some (JNum v) \<longrightarrow>
     (\<exists>loc. get_sensor_data model rq =
        Inr \<lparr>ground_data =
               \<lparr>location = loc, ground_value = round2 v, unit = ''ug/m3'',
                level_info = get_aqi_level (Some v)\<rparr>,
             weather_data = wd,
             satellite_data = tempo_data rq,
             forecast_data = generate_forecast model (clock rq) wd v\<rparr>)"
proof
  assume a: "coordinates rq = Some c \<and> weather rq = Returned wd \<and>
   waqi_reading (waqi_exchange rq) = Some (JNum v)"
  then obtain doc where doc: "waqi_exchange rq = Returned doc"
    by (cases "waqi_exchange rq") (simp_all add: waqi_reading_def)
  with a have "waqi_reading (Returned doc) = Some (JNum v)" by simp
  from read_waqi_available [OF this]
  have "fst (ground_reading (waqi_exchange rq)) = JNum v"
    by (simp add: ground_reading_def doc)
  then obtain loc where g: "ground_reading (waqi_exchange rq) = (JNum v, loc)"
    by (cases "ground_reading (waqi_exchange rq)") simp
  obtain lat lon where c: "c = (lat, lon)" by (cases c)
  from a show "\<exists>loc. get_sensor_data model rq =
        Inr \<lparr>ground_data =
               \<lparr>location = loc, ground_value = round2 v, unit = ''ug/m3'',
                level_info = get_aqi_level (Some v)\<rparr>,
             weather_data = wd,
             satellite_data = tempo_data rq,
             forecast_data = generate_forecast model (clock rq) wd v\<rparr>"
    by (simp add: get_sensor_data_def g c)
qed

text \<open>The request answered with the reading 152 of the station Delhi.\<close>

theorem reading_used_when_available_witness:
  "get_sensor_data None answered_request =
     Inr \<lparr>ground_data =
            \<lparr>location = JStr ''Delhi'', ground_value = 152, unit = ''ug/m3'',
             level_info = \<lparr>level = ''Very Unhealthy'', color = ''#8f3f97''\<rparr>\<rparr>,
          weather_data = [''temperature_2m'' \<mapsto> 21],
          satellite_data = JObj [(''status'', JStr ''No Data Available''), (''value'', JNull)],
          forecast_data =
            generate_forecast None (\<lambda>n. example_now) [''temperature_2m'' \<mapsto> 21] 152\<rparr>"
proof -
  have h: "coordinates answered_request = Some (28.65, 77.23) \<and>
           weather answered_request = Returned [''temperature_2m'' \<mapsto> 21] \<and>
           waqi_reading (waqi_exchange answered_request) = Some (JNum 152)"
    by (simp add: answered_request_def waqi_reading_def)
  have g: "ground_reading (waqi_exchange answered_request) = (JNum 152, JStr ''Delhi'')"
    by (simp add: answered_request_def ground_reading_def read_waqi_def and_then_def)
  have l: "get_aqi_level (Some 152) = \<lparr>level = ''Very Unhealthy'', color = ''#8f3f97''\<rparr>"
    by (simp add: get_aqi_level_def)
  have r: "round2 152 = 152" by (simp add: round2_def)
  from reading_used_when_available
    [of answered_request "(28.65, 77.23)" "[''temperature_2m'' \<mapsto> 21]" 152 None] h
  obtain loc where e: "get_sensor_data None answered_request =
        Inr \<lparr>ground_data =
               \<lparr>location = loc, ground_value = round2 152, unit = ''ug/m3'',
                level_info = get_aqi_level (Some 152)\<rparr>,
             weather_data = [''temperature_2m'' \<mapsto> 21],
             satellite_data = tempo_data answered_request,
             forecast_data =
               generate_forecast None (clock answered_request) [''temperature_2m'' \<mapsto> 21] 152\<rparr>"
    by blast
  have "get_sensor_data None answered_request =
        Inr \<lparr>ground_data =
               \<lparr>location = JStr ''Delhi'', ground_value = round2 152, unit = ''ug/m3'',
                level_info = get_aqi_level (Some 152)\<rparr>,
             weather_data = [''temperature_2m'' \<mapsto> 21],
             satellite_data = tempo_data answered_request,
             forecast_data =
               generate_forecast None (clock answered_request) [''temperature_2m'' \<mapsto> 21] 152\<rparr>"
    using h by (simp add: get_sensor_data_def g)
  with e have "loc = JStr ''Delhi''" by simp
  with e show ?thesis by (simp add: l r) (simp add: answered_request_def)
qed

end
